theory Spec2Isabelle
  imports Complex_Main
begin

section \<open>MoMo-Adam: the state and the update step of \<open>optax/contrib/momo_adam.py\<close>\<close>

text \<open>
  The arithmetic of the optimizer is modelled over the real numbers: rounding, infinities
  and NaN of the floating-point arrays are outside the model, and so is the range of the
  floats (a power \<open>beta ** (count + 1)\<close> of Python floats can leave it only for a
  \<open>beta\<close> of absolute value above 1). A container (a pytree of
  arrays) is a finite family of scalars, one for every position \<open>'i\<close> of the container;
  the containers of one call (gradients, the two moments of the state, parameters) have
  the same positions, which is what the elementwise map requires of its arguments.
\<close>

subsection \<open>Containers\<close>

type_synonym 'i tree = "'i \<Rightarrow> real"

text \<open>
  Modelled from the spec: the numeric container utility (\<open>jax.tree_util.tree_map\<close> and
  \<open>optax.tree_utils.tree_vdot\<close>), which is not under src/. The spec gives it as an
  elementwise map over one or more same-shaped containers and a scalar inner-product
  reduction across a container.
\<close>

definition tree_map :: "(real \<Rightarrow> real) \<Rightarrow> 'i tree \<Rightarrow> 'i tree" where
  "tree_map f a = (\<lambda>i. f (a i))"

definition tree_map2 :: "(real \<Rightarrow> real \<Rightarrow> real) \<Rightarrow> 'i tree \<Rightarrow> 'i tree \<Rightarrow> 'i tree" where
  "tree_map2 f a b = (\<lambda>i. f (a i) (b i))"

definition tree_map3 ::
  "(real \<Rightarrow> real \<Rightarrow> real \<Rightarrow> real) \<Rightarrow> 'i tree \<Rightarrow> 'i tree \<Rightarrow> 'i tree \<Rightarrow> 'i tree" where
  "tree_map3 f a b c = (\<lambda>i. f (a i) (b i) (c i))"

definition tree_vdot :: "('i::finite) tree \<Rightarrow> 'i tree \<Rightarrow> real" where
  "tree_vdot a b = (\<Sum>i\<in>UNIV. a i * b i)"

subsection \<open>Configuration and state\<close>

text \<open>\<open>base.ScalarOrSchedule\<close>: a constant, or a function of the step count.\<close>

datatype ScalarOrSchedule = Scalar real | Schedule "nat \<Rightarrow> real"

text \<open>The arguments of \<open>momo_adam\<close>, which \<open>init_fn\<close> and \<open>update_fn\<close> close over.\<close>

record config =
  learning_rate :: ScalarOrSchedule
  betas :: "real \<times> real"
  eps :: real
  lb :: real
  weight_decay :: real

text \<open>
  \<open>class MomoAdamState(NamedTuple)\<close>. The step counter is a non-negative integer without
  an upper bound; for a counter of 32 bits, \<open>count + 1\<close> is its successor as long as
  \<open>count < 2147483647\<close>.
\<close>

record 'i MomoAdamState =
  exp_avg :: "'i tree"
  exp_avg_sq :: "'i tree"
  barf :: real
  gamma :: real
  count :: nat

text \<open>
  The exceptions of \<open>update_fn\<close>: its two \<open>raise ValueError(...)\<close>, told apart by their
  message (\<open>base.NO_PARAMS_MSG\<close>, and the message asking for the latest loss value), and
  the \<open>ZeroDivisionError\<close> of a division of Python floats by zero.
\<close>

datatype message = NO_PARAMS_MSG | NO_LOSS_MSG

datatype exception = ValueError message | ZeroDivisionError

text \<open>
  The operator \<open>/\<close> on two Python floats raises on a zero divisor. The scalars of the
  configuration (\<open>betas\<close>, \<open>eps\<close>, \<open>lb\<close>, \<open>weight_decay\<close>) are Python floats, the learning
  rate of the step (the constant, or the plain scalar that the schedule gives) is a Python
  float, and the step counter is a Python integer, as \<open>init_fn\<close> creates it. So
  \<open>alpha / bc1\<close> and \<open>(alpha * weight_decay) / (1 + alpha * weight_decay)\<close> are divisions
  of Python floats. (Were the counter an array, \<open>alpha / bc1\<close> would be a division of
  arrays, which gives an infinity where this one raises; the theorems about calls that
  return take \<open>betas\<close> in \<open>[0, 1)\<close>, where \<open>bc1\<close> is positive.) The leaves of the
  containers, the loss and what is computed from them are arrays, whose division does not
  raise: there \<open>/\<close> is the division of the reals.
\<close>

definition float_truediv :: "real \<Rightarrow> real \<Rightarrow> exception + real" where
  "float_truediv a b = (if b = 0 then Inl ZeroDivisionError else Inr (a / b))"

text \<open>
  Modelled from the spec: \<open>utils.safe_int32_increment\<close>, which is not under src/. The
  spec gives the step counter as a non-negative integer that increments by exactly 1
  per update.
\<close>

definition safe_int32_increment :: "nat \<Rightarrow> nat" where
  "safe_int32_increment c = c + 1"

subsection \<open>\<open>init_fn\<close>\<close>

definition init_fn :: "'i tree \<Rightarrow> 'i MomoAdamState" where
  "init_fn params =
     \<lparr>exp_avg = tree_map (\<lambda>p. 0) params,
      exp_avg_sq = tree_map (\<lambda>p. 0) params,
      barf = 0,
      gamma = 0,
      count = 0\<rparr>"

subsection \<open>\<open>update_fn\<close>\<close>

text \<open>
  Every local variable of \<open>update_fn\<close> is a function of the arguments it is computed
  from, in the order of the source. The moving averages of the new state carry the
  suffix \<open>_new\<close>, since the field names of the state are taken.
\<close>

definition beta1 :: "config \<Rightarrow> real" where
  "beta1 cfg = fst (betas cfg)"

definition beta2 :: "config \<Rightarrow> real" where
  "beta2 cfg = snd (betas cfg)"

definition barf_new :: "config \<Rightarrow> 'i MomoAdamState \<Rightarrow> real \<Rightarrow> real" where
  "barf_new cfg state loss = beta1 cfg * barf state + (1 - beta1 cfg) * loss"

definition exp_avg_new :: "config \<Rightarrow> 'i tree \<Rightarrow> 'i MomoAdamState \<Rightarrow> 'i tree" where
  "exp_avg_new cfg updates state =
     tree_map2 (\<lambda>ea g. beta1 cfg * ea + (1 - beta1 cfg) * g) (exp_avg state) updates"

definition exp_avg_sq_new :: "config \<Rightarrow> 'i tree \<Rightarrow> 'i MomoAdamState \<Rightarrow> 'i tree" where
  "exp_avg_sq_new cfg updates state =
     tree_map2 (\<lambda>eas g. beta2 cfg * eas + (1 - beta2 cfg) * g * g) (exp_avg_sq state) updates"

definition bc2 :: "config \<Rightarrow> 'i MomoAdamState \<Rightarrow> real" where
  "bc2 cfg state = 1 - beta2 cfg ^ (count state + 1)"

definition precond :: "config \<Rightarrow> 'i tree \<Rightarrow> 'i MomoAdamState \<Rightarrow> 'i tree" where
  "precond cfg updates state =
     tree_map (\<lambda>eas. eps cfg + sqrt (eas / bc2 cfg state)) (exp_avg_sq_new cfg updates state)"

definition exp_avg_weighted :: "config \<Rightarrow> 'i tree \<Rightarrow> 'i MomoAdamState \<Rightarrow> 'i tree" where
  "exp_avg_weighted cfg updates state =
     tree_map2 (\<lambda>ea prec. ea / prec) (exp_avg_new cfg updates state) (precond cfg updates state)"

definition exp_avg_norm :: "config \<Rightarrow> ('i::finite) tree \<Rightarrow> 'i MomoAdamState \<Rightarrow> real" where
  "exp_avg_norm cfg updates state =
     tree_vdot (exp_avg_new cfg updates state) (exp_avg_weighted cfg updates state)"

definition gamma_new :: "config \<Rightarrow> ('i::finite) tree \<Rightarrow> 'i MomoAdamState \<Rightarrow> 'i tree \<Rightarrow> real" where
  "gamma_new cfg updates state params =
     beta1 cfg * gamma state + (1 - beta1 cfg) * tree_vdot updates params"

definition iprod :: "config \<Rightarrow> ('i::finite) tree \<Rightarrow> 'i MomoAdamState \<Rightarrow> 'i tree \<Rightarrow> real" where
  "iprod cfg updates state params = tree_vdot (exp_avg_new cfg updates state) params"

definition alpha :: "config \<Rightarrow> 'i MomoAdamState \<Rightarrow> real" where
  "alpha cfg state =
     (case learning_rate cfg of Schedule f \<Rightarrow> f (count state) | Scalar a \<Rightarrow> a)"

definition bc1 :: "config \<Rightarrow> 'i MomoAdamState \<Rightarrow> real" where
  "bc1 cfg state = 1 - beta1 cfg ^ (count state + 1)"

text \<open>The first assignment to \<open>t1\<close>: the quotient, evaluated before the guard.\<close>

definition t1_quotient ::
  "config \<Rightarrow> ('i::finite) tree \<Rightarrow> 'i MomoAdamState \<Rightarrow> 'i tree \<Rightarrow> real \<Rightarrow> real" where
  "t1_quotient cfg updates state params loss =
     max ((1 + alpha cfg state * weight_decay cfg) *
            (barf_new cfg state loss - bc1 cfg state * lb cfg - gamma_new cfg updates state params)
          + iprod cfg updates state params) 0
     / exp_avg_norm cfg updates state"

text \<open>
  The second assignment to \<open>t1\<close>: \<open>cond(exp_avg_norm <= jnp.finfo(float).eps, 0, t1)\<close>.
  The machine epsilon is a constant of the numeric library and is the parameter
  \<open>finfo_eps\<close> here.
\<close>

definition t1 ::
  "real \<Rightarrow> config \<Rightarrow> ('i::finite) tree \<Rightarrow> 'i MomoAdamState \<Rightarrow> 'i tree \<Rightarrow> real \<Rightarrow> real" where
  "t1 finfo_eps cfg updates state params loss =
     (if exp_avg_norm cfg updates state \<le> finfo_eps then 0
      else t1_quotient cfg updates state params loss)"

text \<open>\<open>tau = jnp.minimum(alpha/bc1, t1)\<close>: the quotient is one of Python floats.\<close>

definition tau ::
  "real \<Rightarrow> config \<Rightarrow> ('i::finite) tree \<Rightarrow> 'i MomoAdamState \<Rightarrow> 'i tree \<Rightarrow> real
     \<Rightarrow> exception + real" where
  "tau finfo_eps cfg updates state params loss =
     (case float_truediv (alpha cfg state) (bc1 cfg state) of
        Inl e \<Rightarrow> Inl e
      | Inr q \<Rightarrow> Inr (min q (t1 finfo_eps cfg updates state params loss)))"

text \<open>
  The function mapped over the leaves first divides two Python floats,
  \<open>-(alpha*weight_decay)/(1+alpha*weight_decay)\<close>, the same quotient at every leaf (a
  container has at least one), and then works on arrays.
\<close>

definition p_update ::
  "real \<Rightarrow> config \<Rightarrow> ('i::finite) tree \<Rightarrow> 'i MomoAdamState \<Rightarrow> 'i tree \<Rightarrow> real
     \<Rightarrow> exception + 'i tree" where
  "p_update finfo_eps cfg updates state params loss =
     (case tau finfo_eps cfg updates state params loss of
        Inl e \<Rightarrow> Inl e
      | Inr tau' \<Rightarrow>
          (case float_truediv (- (alpha cfg state * weight_decay cfg))
                  (1 + alpha cfg state * weight_decay cfg) of
             Inl e \<Rightarrow> Inl e
           | Inr w \<Rightarrow>
               Inr (tree_map3 (\<lambda>ea prec p. w * p - tau' * ea / prec)
                      (exp_avg_new cfg updates state) (precond cfg updates state) params)))"

definition new_state ::
  "config \<Rightarrow> ('i::finite) tree \<Rightarrow> 'i MomoAdamState \<Rightarrow> 'i tree \<Rightarrow> real \<Rightarrow> 'i MomoAdamState" where
  "new_state cfg updates state params loss =
     \<lparr>exp_avg = exp_avg_new cfg updates state,
      exp_avg_sq = exp_avg_sq_new cfg updates state,
      barf = barf_new cfg state loss,
      gamma = gamma_new cfg updates state params,
      count = safe_int32_increment (count state)\<rparr>"

text \<open>
  \<open>params\<close> and \<open>loss\<close> are \<open>Optional\<close>: the two checks come first, \<open>params\<close> before
  \<open>loss\<close>, and each raises. The new state is built after the update, so a call that
  raises produces neither.
\<close>

definition update_fn ::
  "real \<Rightarrow> config \<Rightarrow> ('i::finite) tree \<Rightarrow> 'i MomoAdamState \<Rightarrow> 'i tree option \<Rightarrow> real option
     \<Rightarrow> exception + ('i tree \<times> 'i MomoAdamState)" where
  "update_fn finfo_eps cfg updates state params loss =
     (case params of
        None \<Rightarrow> Inl (ValueError NO_PARAMS_MSG)
      | Some ps \<Rightarrow>
          (case loss of
             None \<Rightarrow> Inl (ValueError NO_LOSS_MSG)
           | Some l \<Rightarrow>
               (case p_update finfo_eps cfg updates state ps l of
                  Inl e \<Rightarrow> Inl e
                | Inr u \<Rightarrow> Inr (u, new_state cfg updates state ps l))))"

subsection \<open>The update, following the words of the specification\<close>

text \<open>
  Steps 3 to 11 of the algorithm as the specification writes them, from the moving
  averages of step 2: bias corrections, preconditioner, the two inner products, the
  candidate step with its guard, the capped step size and the entry of the update.
  It is compared with \<open>p_update\<close>, which is translated from the source.
\<close>

definition spec_steps_3_11 ::
  "real \<Rightarrow> real \<Rightarrow> real \<Rightarrow> real \<Rightarrow> real \<Rightarrow> real \<Rightarrow> real \<Rightarrow> nat \<Rightarrow> real
     \<Rightarrow> real \<Rightarrow> ('i::finite) tree \<Rightarrow> 'i tree \<Rightarrow> 'i tree \<Rightarrow> 'i tree \<Rightarrow> 'i tree" where
  "spec_steps_3_11 machine_epsilon alpha' beta1' beta2' eps' lb' weight_decay' count' barf' gamma'
       exp_avg' exp_avg_sq' updates params =
     (let bc2' = 1 - beta2' ^ (count' + 1);
          precond' = (\<lambda>i. eps' + sqrt (exp_avg_sq' i / bc2'));
          exp_avg_weighted' = (\<lambda>i. exp_avg' i / precond' i);
          exp_avg_norm' = (\<Sum>i\<in>UNIV. exp_avg' i * exp_avg_weighted' i);
          iprod' = (\<Sum>i\<in>UNIV. exp_avg' i * params i);
          gamma'' = beta1' * gamma' + (1 - beta1') * (\<Sum>i\<in>UNIV. updates i * params i);
          bc1' = 1 - beta1' ^ (count' + 1);
          t1' = (if exp_avg_norm' \<le> machine_epsilon then 0
                 else max 0 ((1 + alpha' * weight_decay') * (barf' - bc1' * lb' - gamma'') + iprod')
                      / exp_avg_norm');
          tau' = min (alpha' / bc1') t1'
      in (\<lambda>i. - (alpha' * weight_decay') / (1 + alpha' * weight_decay') * params i
               - tau' * exp_avg' i / precond' i))"

subsection \<open>Concrete inputs\<close>

text \<open>
  A container with a single scalar entry has the one position \<open>()\<close>. The inputs below
  are those of the scenario of the specification (default configuration, parameter 1,
  gradient 0.5), a gradient of \<open>1 / 10 ^ 12\<close>, a configuration with the learning rate
  \<open>-1\<close>, and two configurations whose learning rate times weight decay is \<open>-1\<close>.
  \<open>float32_eps\<close> is the single-precision machine epsilon \<open>1 / 2 ^ 23\<close> that the
  specification names as the threshold of the guard; the source's \<open>jnp.finfo(float).eps\<close>
  is the parameter \<open>finfo_eps\<close> of the model, and the inputs below are such that the
  double-precision epsilon \<open>1 / 2 ^ 52\<close> gives the same results.
\<close>

definition float32_eps :: real where
  "float32_eps = 1 / 2 ^ 23"

definition default_cfg :: config where
  "default_cfg =
     \<lparr>learning_rate = Scalar 1, betas = (9 / 10, 999 / 1000), eps = 1 / 100000000,
      lb = 0, weight_decay = 0\<rparr>"

definition one_param :: "unit tree" where
  "one_param = (\<lambda>i. 1)"

definition half_gradient :: "unit tree" where
  "half_gradient = (\<lambda>i. 1 / 2)"

definition tiny_gradient :: "unit tree" where
  "tiny_gradient = (\<lambda>i. 1 / 10 ^ 12)"

definition zero_gradient :: "unit tree" where
  "zero_gradient = (\<lambda>i. 0)"

definition negative_rate_cfg :: config where
  "negative_rate_cfg = default_cfg\<lparr>learning_rate := Scalar (- 1)\<rparr>"

definition negative_rate_decay_cfg :: config where
  "negative_rate_decay_cfg = default_cfg\<lparr>learning_rate := Scalar (- 1), weight_decay := 1\<rparr>"

definition negative_rate_half_decay_cfg :: config where
  "negative_rate_half_decay_cfg =
     default_cfg\<lparr>learning_rate := Scalar (- 2), weight_decay := 1 / 2\<rparr>"

section \<open>Auxiliary facts\<close>

subsection \<open>The result of a call with both arguments present\<close>

lemma tau_Inr:
  "bc1 cfg state \<noteq> 0 \<Longrightarrow>
   tau finfo_eps cfg updates state params loss
     = Inr (min (alpha cfg state / bc1 cfg state) (t1 finfo_eps cfg updates state params loss))"
  by (simp add: tau_def float_truediv_def)

lemma p_update_Inr:
  "bc1 cfg state \<noteq> 0 \<Longrightarrow> 1 + alpha cfg state * weight_decay cfg \<noteq> 0 \<Longrightarrow>
   p_update finfo_eps cfg updates state params loss
     = Inr (tree_map3
              (\<lambda>ea prec p.
                 (- (alpha cfg state * weight_decay cfg))
                   / (1 + alpha cfg state * weight_decay cfg) * p
                 - min (alpha cfg state / bc1 cfg state)
                     (t1 finfo_eps cfg updates state params loss) * ea / prec)
              (exp_avg_new cfg updates state) (precond cfg updates state) params)"
  by (simp add: p_update_def tau_Inr float_truediv_def)

lemma p_update_Inl:
  "p_update finfo_eps cfg updates state params loss = Inl e \<Longrightarrow>
   e = ZeroDivisionError \<and> (bc1 cfg state = 0 \<or> 1 + alpha cfg state * weight_decay cfg = 0)"
  by (auto simp: p_update_def tau_def float_truediv_def split: sum.splits if_splits)

lemma p_update_zero_divisor:
  "1 + alpha cfg state * weight_decay cfg = 0 \<Longrightarrow>
   p_update finfo_eps cfg updates state params loss = Inl ZeroDivisionError"
  by (simp add: p_update_def tau_def float_truediv_def split: sum.splits)

lemma p_update_zero_bc1:
  "bc1 cfg state = 0 \<Longrightarrow> p_update finfo_eps cfg updates state params loss = Inl ZeroDivisionError"
  by (simp add: p_update_def tau_def float_truediv_def)

lemma update_fn_Some:
  "update_fn finfo_eps cfg updates state (Some ps) (Some l) =
     (case p_update finfo_eps cfg updates state ps l of
        Inl e \<Rightarrow> Inl e
      | Inr u \<Rightarrow> Inr (u, new_state cfg updates state ps l))"
  by (simp add: update_fn_def)

lemma update_fn_Inr_state:
  "update_fn finfo_eps cfg updates state params loss = Inr (u, s) \<Longrightarrow>
   \<exists>ps l. params = Some ps \<and> loss = Some l \<and> s = new_state cfg updates state ps l"
  by (auto simp: update_fn_def split: option.splits sum.splits)

subsection \<open>Second moment, bias correction and preconditioner\<close>

lemma exp_avg_sq_new_nonneg:
  assumes "0 \<le> beta2 cfg" "beta2 cfg \<le> 1" "0 \<le> exp_avg_sq state i"
  shows "0 \<le> exp_avg_sq_new cfg updates state i"
proof -
  have "0 \<le> beta2 cfg * exp_avg_sq state i" using assms by simp
  moreover have "0 \<le> (1 - beta2 cfg) * (updates i * updates i)" using assms by simp
  ultimately show ?thesis by (simp add: exp_avg_sq_new_def tree_map2_def mult.assoc)
qed

lemma bc2_pos:
  assumes "0 \<le> beta2 cfg" "beta2 cfg < 1"
  shows "0 < bc2 cfg state"
proof -
  have "beta2 cfg ^ (count state + 1) \<le> beta2 cfg ^ 1"
    using assms by (intro power_decreasing) simp_all
  with assms have "beta2 cfg ^ (count state + 1) < 1" by simp
  then show ?thesis by (simp add: bc2_def)
qed

lemma precond_ge_eps:
  assumes "0 \<le> beta2 cfg" "beta2 cfg < 1" "0 \<le> exp_avg_sq state i"
  shows "eps cfg \<le> precond cfg updates state i"
proof -
  have "0 \<le> exp_avg_sq_new cfg updates state i"
    using assms by (simp add: exp_avg_sq_new_nonneg)
  moreover have "0 < bc2 cfg state" using assms by (simp add: bc2_pos)
  ultimately have "0 \<le> exp_avg_sq_new cfg updates state i / bc2 cfg state" by simp
  then show ?thesis by (simp add: precond_def tree_map_def)
qed

lemma bc1_pos:
  assumes "0 \<le> beta1 cfg" "beta1 cfg < 1"
  shows "0 < bc1 cfg state"
proof -
  have "beta1 cfg ^ (count state + 1) \<le> beta1 cfg ^ 1"
    using assms by (intro power_decreasing) simp_all
  with assms have "beta1 cfg ^ (count state + 1) < 1" by simp
  then show ?thesis by (simp add: bc1_def)
qed

subsection \<open>Evaluation on a container with one entry\<close>

lemma tree_vdot_unit: "tree_vdot a b = a () * b ()" for a b :: "unit tree"
  by (simp add: tree_vdot_def UNIV_unit)

lemma default_cfg_fields:
  "learning_rate default_cfg = Scalar 1" "beta1 default_cfg = 9 / 10"
  "beta2 default_cfg = 999 / 1000" "eps default_cfg = 1 / 100000000"
  "lb default_cfg = 0" "weight_decay default_cfg = 0"
  by (simp_all add: default_cfg_def beta1_def beta2_def)

lemma init_fn_fields:
  "exp_avg (init_fn ps) = (\<lambda>i. 0)" "exp_avg_sq (init_fn ps) = (\<lambda>i. 0)"
  "barf (init_fn ps) = 0" "gamma (init_fn ps) = 0" "count (init_fn ps) = 0"
  by (simp_all add: init_fn_def tree_map_def)

lemma negative_rate_decay_cfg_fields:
  "learning_rate negative_rate_decay_cfg = Scalar (- 1)" "weight_decay negative_rate_decay_cfg = 1"
  "eps negative_rate_decay_cfg = 1 / 100000000"
  "learning_rate negative_rate_half_decay_cfg = Scalar (- 2)"
  "weight_decay negative_rate_half_decay_cfg = 1 / 2"
  "eps negative_rate_half_decay_cfg = 1 / 100000000"
  by (simp_all add: negative_rate_decay_cfg_def negative_rate_half_decay_cfg_def default_cfg_def)

lemma negative_rate_cfg_fields:
  "learning_rate negative_rate_cfg = Scalar (- 1)" "beta1 negative_rate_cfg = 9 / 10"
  "beta2 negative_rate_cfg = 999 / 1000" "eps negative_rate_cfg = 1 / 100000000"
  "lb negative_rate_cfg = 0" "weight_decay negative_rate_cfg = 0"
  by (simp_all add: negative_rate_cfg_def default_cfg_def beta1_def beta2_def)

text \<open>The scenario: default configuration, gradient \<open>1 / 2\<close>, the state of \<open>init_fn\<close>.\<close>

lemma sc_alpha: "alpha default_cfg (init_fn ps) = 1"
  by (simp add: alpha_def default_cfg_fields)

lemma sc_bc1: "bc1 default_cfg (init_fn ps) = 1 / 10"
  by (simp add: bc1_def default_cfg_fields init_fn_fields)

lemma sc_bc2: "bc2 default_cfg (init_fn ps) = 1 / 1000"
  by (simp add: bc2_def default_cfg_fields init_fn_fields)

lemma sc_barf: "barf_new default_cfg (init_fn ps) 2 = 1 / 5"
  by (simp add: barf_new_def default_cfg_fields init_fn_fields)

lemma sc_exp_avg: "exp_avg_new default_cfg half_gradient (init_fn ps) = (\<lambda>i. 1 / 20)"
  by (simp add: exp_avg_new_def tree_map2_def default_cfg_fields init_fn_fields
      half_gradient_def)

lemma sc_exp_avg_sq:
  "exp_avg_sq_new default_cfg half_gradient (init_fn ps) = (\<lambda>i. 1 / 4000)"
  by (simp add: exp_avg_sq_new_def tree_map2_def default_cfg_fields init_fn_fields
      half_gradient_def)

lemma sc_gamma: "gamma_new default_cfg half_gradient (init_fn ps) one_param = 1 / 20"
  by (simp add: gamma_new_def tree_vdot_unit default_cfg_fields init_fn_fields
      half_gradient_def one_param_def)

lemma sc_precond:
  "precond default_cfg half_gradient (init_fn ps) = (\<lambda>i. 50000001 / 100000000)"
  by (simp add: precond_def sc_exp_avg_sq sc_bc2 tree_map_def default_cfg_fields real_sqrt_divide)

lemma sc_norm:
  "exp_avg_norm default_cfg half_gradient (init_fn ps) = 250000 / 50000001"
  by (simp add: exp_avg_norm_def exp_avg_weighted_def tree_vdot_unit tree_map2_def
      sc_exp_avg sc_precond)

lemma sc_iprod: "iprod default_cfg half_gradient (init_fn one_param) one_param = 1 / 20"
  by (simp add: iprod_def tree_vdot_unit sc_exp_avg one_param_def)

lemma sc_t1q:
  "t1_quotient default_cfg half_gradient (init_fn one_param) one_param 2 = 50000001 / 1250000"
  by (simp add: t1_quotient_def sc_alpha sc_barf sc_bc1 sc_gamma sc_iprod sc_norm
      default_cfg_fields)

lemma sc_tau:
  "finfo_eps < 1 / 1000 \<Longrightarrow>
   tau finfo_eps default_cfg half_gradient (init_fn one_param) one_param 2 = Inr 10"
  by (simp add: tau_def float_truediv_def t1_def sc_t1q sc_norm sc_alpha sc_bc1)

lemma sc_update:
  "finfo_eps < 1 / 1000 \<Longrightarrow>
   p_update finfo_eps default_cfg half_gradient (init_fn one_param) one_param 2
     = Inr (\<lambda>i. - (50000000 / 50000001))"
  by (simp add: p_update_def float_truediv_def tree_map3_def sc_tau sc_exp_avg sc_precond
      sc_alpha default_cfg_fields)

lemma sc_state:
  "new_state default_cfg half_gradient (init_fn one_param) one_param 2 =
     \<lparr>exp_avg = (\<lambda>i. 1 / 20), exp_avg_sq = (\<lambda>i. 1 / 4000), barf = 1 / 5, gamma = 1 / 20,
      count = 1\<rparr>"
  by (simp add: new_state_def sc_exp_avg sc_exp_avg_sq sc_barf sc_gamma init_fn_fields
      safe_int32_increment_def)

lemma float32_eps_small: "float32_eps < 1 / 1000"
  by (simp add: float32_eps_def)

lemma sc_update_fn:
  "finfo_eps < 1 / 1000 \<Longrightarrow>
   update_fn finfo_eps default_cfg half_gradient (init_fn one_param) (Some one_param) (Some 2)
     = Inr ((\<lambda>i. - (50000000 / 50000001)),
            new_state default_cfg half_gradient (init_fn one_param) one_param 2)"
  by (simp add: update_fn_Some sc_update)

text \<open>
  Where neither division of Python floats raises, the source's update is the
  specification's steps 3 to 11.
\<close>

lemma p_update_spec:
  assumes "bc1 cfg state \<noteq> 0" and "1 + alpha cfg state * weight_decay cfg \<noteq> 0"
  shows "p_update finfo_eps cfg updates state params loss =
     Inr (spec_steps_3_11 finfo_eps (alpha cfg state) (beta1 cfg) (beta2 cfg) (eps cfg) (lb cfg)
       (weight_decay cfg) (count state) (barf_new cfg state loss) (gamma state)
       (exp_avg_new cfg updates state) (exp_avg_sq_new cfg updates state) updates params)"
  by (simp add: p_update_Inr [OF assms] spec_steps_3_11_def Let_def tree_map3_def t1_def
      t1_quotient_def exp_avg_norm_def exp_avg_weighted_def precond_def tree_map_def
      tree_map2_def tree_vdot_def iprod_def gamma_new_def bc1_def bc2_def max.commute)

text \<open>The gradient \<open>1 / 10 ^ 12\<close> on the state of \<open>init_fn\<close>: the rate plays no role.\<close>

lemma sqrt_tiny: "sqrt (1 / 10 ^ 24) = 1 / 10 ^ 12"
  by (rule real_sqrt_unique) (simp_all add: power2_eq_square)

lemma tiny_exp_avg:
  assumes "beta1 cfg = 9 / 10"
  shows "exp_avg_new cfg tiny_gradient (init_fn ps) = (\<lambda>i. 1 / 10 ^ 13)"
  by (simp add: assms exp_avg_new_def tree_map2_def init_fn_fields tiny_gradient_def)

lemma tiny_precond:
  assumes "beta2 cfg = 999 / 1000" "eps cfg = 1 / 100000000"
  shows "precond cfg tiny_gradient (init_fn ps) = (\<lambda>i. 10001 / 10 ^ 12)"
proof -
  have e: "exp_avg_sq_new cfg tiny_gradient (init_fn ps) = (\<lambda>i. 1 / 10 ^ 27)"
    by (simp add: assms exp_avg_sq_new_def tree_map2_def init_fn_fields tiny_gradient_def)
  have b: "bc2 cfg (init_fn ps) = 1 / 1000"
    by (simp add: assms bc2_def init_fn_fields)
  have q: "(1 / 10 ^ 27) / (1 / 1000) = (1 / 10 ^ 24 :: real)"
    by simp
  have "precond cfg tiny_gradient (init_fn ps)
      = (\<lambda>i. 1 / 100000000 + sqrt ((1 / 10 ^ 27) / (1 / 1000)))"
    by (simp only: precond_def tree_map_def e b assms)
  also have "\<dots> = (\<lambda>i. 1 / 100000000 + 1 / 10 ^ 12)"
    by (simp only: q sqrt_tiny)
  also have "\<dots> = (\<lambda>i. 10001 / 10 ^ 12)"
    by simp
  finally show ?thesis .
qed

lemma tiny_norm:
  assumes "beta1 cfg = 9 / 10" "beta2 cfg = 999 / 1000" "eps cfg = 1 / 100000000"
  shows "exp_avg_norm cfg tiny_gradient (init_fn ps) = 1 / (10001 * 10 ^ 14)"
  by (simp add: assms exp_avg_norm_def exp_avg_weighted_def tree_vdot_unit tree_map2_def
      tiny_exp_avg tiny_precond)

lemma tiny_norm_le:
  assumes "beta1 cfg = 9 / 10" "beta2 cfg = 999 / 1000" "eps cfg = 1 / 100000000"
  shows "exp_avg_norm cfg tiny_gradient (init_fn ps) \<le> float32_eps"
  by (simp add: assms tiny_norm float32_eps_def)

lemma tiny_norm_le_double:
  assumes "beta1 cfg = 9 / 10" "beta2 cfg = 999 / 1000" "eps cfg = 1 / 100000000"
  shows "exp_avg_norm cfg tiny_gradient (init_fn ps) \<le> 1 / 2 ^ 52"
  by (simp add: assms tiny_norm)

section \<open>Properties\<close>

subsection \<open>The guard of the candidate step\<close>

text \<open>
  C1, as stated, fails. With the learning rate \<open>-1\<close> and the gradient \<open>1 / 10 ^ 12\<close> on
  the state of \<open>init_fn\<close>, \<open>exp_avg_norm\<close> is about \<open>10 ^ -18\<close>, below the
  single-precision epsilon (and below the double-precision one), so the guard sets
  \<open>t1 = 0\<close>; but \<open>tau = min (alpha / bc1) 0 = -10\<close>, and the entry of the returned update
  is \<open>1 / 10001\<close>, while the weight-decay-only term is 0.
\<close>

theorem guard_with_negative_rate_counterexample:
  "exp_avg_norm negative_rate_cfg tiny_gradient (init_fn one_param) \<le> float32_eps
   \<and> update_fn float32_eps negative_rate_cfg tiny_gradient (init_fn one_param)
         (Some one_param) (Some 2)
       = Inr ((\<lambda>i. 1 / 10001),
              new_state negative_rate_cfg tiny_gradient (init_fn one_param) one_param 2)
   \<and> (- (alpha negative_rate_cfg (init_fn one_param) * weight_decay negative_rate_cfg))
        / (1 + alpha negative_rate_cfg (init_fn one_param) * weight_decay negative_rate_cfg)
        * one_param () = 0"
proof -
  have n: "exp_avg_norm negative_rate_cfg tiny_gradient (init_fn one_param) \<le> float32_eps"
    by (simp add: tiny_norm_le negative_rate_cfg_fields)
  have a: "alpha negative_rate_cfg (init_fn one_param) = - 1"
    by (simp add: alpha_def negative_rate_cfg_fields)
  have b: "bc1 negative_rate_cfg (init_fn one_param) = 1 / 10"
    by (simp add: bc1_def negative_rate_cfg_fields init_fn_fields)
  have t: "tau float32_eps negative_rate_cfg tiny_gradient (init_fn one_param) one_param 2
             = Inr (- 10)"
    using n by (simp add: tau_def float_truediv_def t1_def a b)
  have p: "p_update float32_eps negative_rate_cfg tiny_gradient (init_fn one_param) one_param 2
             = Inr (\<lambda>i. 1 / 10001)"
    by (simp add: p_update_def float_truediv_def tree_map3_def t a tiny_exp_avg tiny_precond
        negative_rate_cfg_fields)
  show ?thesis
    using n by (simp add: update_fn_Some p negative_rate_cfg_fields)
qed

text \<open>
  C1, amended. Whenever \<open>exp_avg_norm\<close> is at most the machine epsilon, \<open>t1\<close> is 0; if
  moreover \<open>alpha / bc1\<close> is not negative, every update that the call returns is, at every
  entry of \<open>params\<close>, exactly the weight-decay-only term
  \<open>-(alpha * weight_decay) / (1 + alpha * weight_decay) * p\<close>; and the call does return it
  for \<open>betas\<close> in \<open>[0, 1)\<close> and \<open>1 + alpha * weight_decay\<close> other than 0, where neither
  division of Python floats raises.
\<close>

theorem zero_step_under_guard:
  assumes "exp_avg_norm cfg updates state \<le> finfo_eps"
    and "0 \<le> alpha cfg state / bc1 cfg state"
  shows "t1 finfo_eps cfg updates state params loss = 0
    \<and> (\<forall>u s. update_fn finfo_eps cfg updates state (Some params) (Some loss) = Inr (u, s)
          \<longrightarrow> u = tree_map (\<lambda>p. (- (alpha cfg state * weight_decay cfg))
                                 / (1 + alpha cfg state * weight_decay cfg) * p) params
              \<and> s = new_state cfg updates state params loss)
    \<and> (0 \<le> beta1 cfg \<and> beta1 cfg < 1 \<and> 0 \<le> beta2 cfg \<and> beta2 cfg < 1
         \<and> 1 + alpha cfg state * weight_decay cfg \<noteq> 0
        \<longrightarrow> update_fn finfo_eps cfg updates state (Some params) (Some loss)
              = Inr (tree_map (\<lambda>p. (- (alpha cfg state * weight_decay cfg))
                                     / (1 + alpha cfg state * weight_decay cfg) * p) params,
                     new_state cfg updates state params loss))"
proof -
  let ?w = "tree_map (\<lambda>p. (- (alpha cfg state * weight_decay cfg))
                                 / (1 + alpha cfg state * weight_decay cfg) * p) params"
  have t: "t1 finfo_eps cfg updates state params loss = 0"
    using assms(1) by (simp add: t1_def)
  with assms(2) have m:
    "min (alpha cfg state / bc1 cfg state) (t1 finfo_eps cfg updates state params loss) = 0"
    by simp
  have p: "p_update finfo_eps cfg updates state params loss = Inr ?w"
    if "bc1 cfg state \<noteq> 0" "1 + alpha cfg state * weight_decay cfg \<noteq> 0"
    using m by (simp add: p_update_Inr [OF that] tree_map3_def tree_map_def)
  have r: "u = ?w \<and> s = new_state cfg updates state params loss"
    if "update_fn finfo_eps cfg updates state (Some params) (Some loss) = Inr (u, s)" for u s
  proof -
    from that have u: "p_update finfo_eps cfg updates state params loss \<noteq> Inl ZeroDivisionError"
      by (auto simp: update_fn_Some)
    then have "bc1 cfg state \<noteq> 0" "1 + alpha cfg state * weight_decay cfg \<noteq> 0"
      using p_update_zero_bc1 p_update_zero_divisor by blast+
    then have "p_update finfo_eps cfg updates state params loss = Inr ?w"
      by (rule p)
    with that show ?thesis
      by (simp add: update_fn_Some)
  qed
  have q: "update_fn finfo_eps cfg updates state (Some params) (Some loss)
              = Inr (?w, new_state cfg updates state params loss)"
    if "0 \<le> beta1 cfg \<and> beta1 cfg < 1 \<and> 0 \<le> beta2 cfg \<and> beta2 cfg < 1
         \<and> 1 + alpha cfg state * weight_decay cfg \<noteq> 0"
  proof -
    from that have "0 < bc1 cfg state"
      by (simp add: bc1_pos)
    with that have "p_update finfo_eps cfg updates state params loss = Inr ?w"
      by (intro p) simp_all
    then show ?thesis
      by (simp add: update_fn_Some)
  qed
  have c2: "\<forall>u s. update_fn finfo_eps cfg updates state (Some params) (Some loss) = Inr (u, s)
          \<longrightarrow> u = ?w \<and> s = new_state cfg updates state params loss"
  proof (intro allI impI)
    fix u s
    assume "update_fn finfo_eps cfg updates state (Some params) (Some loss) = Inr (u, s)"
    then show "u = ?w \<and> s = new_state cfg updates state params loss"
      by (rule r)
  qed
  have c3: "0 \<le> beta1 cfg \<and> beta1 cfg < 1 \<and> 0 \<le> beta2 cfg \<and> beta2 cfg < 1
         \<and> 1 + alpha cfg state * weight_decay cfg \<noteq> 0
        \<longrightarrow> update_fn finfo_eps cfg updates state (Some params) (Some loss)
              = Inr (?w, new_state cfg updates state params loss)"
    by (intro impI) (rule q)
  from t c2 c3 show ?thesis
    by (rule conjI [OF _ conjI])
qed

text \<open>
  Witness for C1: the default configuration and the gradient \<open>1 / 10 ^ 12\<close>. The first
  moment is not zero, the guard applies, and the returned update is zero.
\<close>

theorem zero_step_under_guard_witness:
  "exp_avg_norm default_cfg tiny_gradient (init_fn one_param) \<le> float32_eps
   \<and> 0 \<le> alpha default_cfg (init_fn one_param) / bc1 default_cfg (init_fn one_param)
   \<and> 0 \<le> beta1 default_cfg \<and> beta1 default_cfg < 1
   \<and> 0 \<le> beta2 default_cfg \<and> beta2 default_cfg < 1
   \<and> 1 + alpha default_cfg (init_fn one_param) * weight_decay default_cfg \<noteq> 0
   \<and> exp_avg_new default_cfg tiny_gradient (init_fn one_param) () = 1 / 10 ^ 13
   \<and> t1 float32_eps default_cfg tiny_gradient (init_fn one_param) one_param 2 = 0
   \<and> update_fn float32_eps default_cfg tiny_gradient (init_fn one_param) (Some one_param) (Some 2)
       = Inr (zero_gradient, new_state default_cfg tiny_gradient (init_fn one_param) one_param 2)"
proof -
  have n: "exp_avg_norm default_cfg tiny_gradient (init_fn one_param) \<le> float32_eps"
    by (simp add: tiny_norm_le default_cfg_fields)
  have a: "0 \<le> alpha default_cfg (init_fn one_param) / bc1 default_cfg (init_fn one_param)"
    by (simp add: sc_alpha sc_bc1)
  have h: "0 \<le> beta1 default_cfg \<and> beta1 default_cfg < 1
      \<and> 0 \<le> beta2 default_cfg \<and> beta2 default_cfg < 1
      \<and> 1 + alpha default_cfg (init_fn one_param) * weight_decay default_cfg \<noteq> 0"
    by (simp add: sc_alpha default_cfg_fields)
  note z = zero_step_under_guard [OF n a, of one_param 2]
  from z have t: "t1 float32_eps default_cfg tiny_gradient (init_fn one_param) one_param 2 = 0"
    by (rule conjunct1)
  from z [THEN conjunct2, THEN conjunct2] h have
    "update_fn float32_eps default_cfg tiny_gradient (init_fn one_param) (Some one_param) (Some 2)
       = Inr (tree_map (\<lambda>p. (- (alpha default_cfg (init_fn one_param) * weight_decay default_cfg))
                      / (1 + alpha default_cfg (init_fn one_param) * weight_decay default_cfg) * p)
                one_param,
              new_state default_cfg tiny_gradient (init_fn one_param) one_param 2)"
    by (rule mp)
  moreover have
    "tree_map (\<lambda>p. (- (alpha default_cfg (init_fn one_param) * weight_decay default_cfg))
                      / (1 + alpha default_cfg (init_fn one_param) * weight_decay default_cfg) * p)
       one_param = zero_gradient"
    by (simp add: default_cfg_fields tree_map_def zero_gradient_def)
  ultimately have u:
    "update_fn float32_eps default_cfg tiny_gradient (init_fn one_param) (Some one_param) (Some 2)
       = Inr (zero_gradient, new_state default_cfg tiny_gradient (init_fn one_param) one_param 2)"
    by simp
  have e: "exp_avg_new default_cfg tiny_gradient (init_fn one_param) () = 1 / 10 ^ 13"
    by (simp add: tiny_exp_avg default_cfg_fields)
  from n a h e t u show ?thesis
    by (intro conjI) simp_all
qed

subsection \<open>The step counter\<close>

text \<open>
  C2. Every call of \<open>update_fn\<close> that does not raise returns a state whose \<open>count\<close> is
  the \<open>count\<close> of the input state plus 1, whatever the other inputs are.
\<close>

theorem update_fn_count:
  "update_fn finfo_eps cfg updates state params loss = Inr (u, s) \<Longrightarrow> count s = count state + 1"
  by (auto simp: new_state_def safe_int32_increment_def dest!: update_fn_Inr_state)

text \<open>Witness for C2: the first step of the scenario.\<close>

theorem update_fn_count_witness:
  "update_fn float32_eps default_cfg half_gradient (init_fn one_param) (Some one_param) (Some 2)
     = Inr ((\<lambda>i. - (50000000 / 50000001)),
            new_state default_cfg half_gradient (init_fn one_param) one_param 2)
   \<and> count (new_state default_cfg half_gradient (init_fn one_param) one_param 2)
     = count (init_fn one_param) + 1"
  using update_fn_count [OF sc_update_fn [OF float32_eps_small]]
    sc_update_fn [OF float32_eps_small]
  by simp

subsection \<open>Errors\<close>

text \<open>
  C3, as stated, fails: a missing \<open>params\<close> and a missing \<open>loss\<close> are not the only
  error conditions. With the learning rate \<open>-1\<close> and the weight decay 1, both arguments
  present, \<open>1 + alpha * weight_decay\<close> is 0 and the division of Python floats in the
  update rule raises \<open>ZeroDivisionError\<close>.
\<close>

theorem update_fn_zero_division_counterexample:
  "update_fn float32_eps negative_rate_decay_cfg half_gradient (init_fn one_param)
     (Some one_param) (Some 2) = Inl ZeroDivisionError"
proof -
  have "1 + alpha negative_rate_decay_cfg (init_fn one_param)
          * weight_decay negative_rate_decay_cfg = 0"
    by (simp add: alpha_def negative_rate_decay_cfg_fields)
  then show ?thesis
    by (simp add: update_fn_Some p_update_zero_divisor)
qed

text \<open>
  C3, amended. \<open>update_fn\<close> raises a \<open>ValueError\<close> exactly when \<open>params\<close> or \<open>loss\<close> is
  absent: without \<open>params\<close> the missing-parameters error, with \<open>params\<close> and without
  \<open>loss\<close> the missing-loss error, both before any computation, so that no update and no
  state is produced. With both present and \<open>betas\<close> in \<open>[0, 1)\<close>, the only error is the
  \<open>ZeroDivisionError\<close> of \<open>1 + alpha * weight_decay = 0\<close>: the call returns when that sum
  is not 0, and for a constant learning rate it raises when it is 0.
\<close>

theorem update_fn_errors:
  "(\<exists>m. update_fn finfo_eps cfg updates state params loss = Inl (ValueError m))
      = (params = None \<or> loss = None)
   \<and> update_fn finfo_eps cfg updates state None loss = Inl (ValueError NO_PARAMS_MSG)
   \<and> update_fn finfo_eps cfg updates state (Some ps) None = Inl (ValueError NO_LOSS_MSG)
   \<and> (0 \<le> beta1 cfg \<and> beta1 cfg < 1 \<and> 0 \<le> beta2 cfg \<and> beta2 cfg < 1
        \<and> update_fn finfo_eps cfg updates state (Some ps) (Some l) = Inl e
       \<longrightarrow> e = ZeroDivisionError \<and> 1 + alpha cfg state * weight_decay cfg = 0)
   \<and> (0 \<le> beta1 cfg \<and> beta1 cfg < 1 \<and> 0 \<le> beta2 cfg \<and> beta2 cfg < 1
        \<and> 1 + alpha cfg state * weight_decay cfg \<noteq> 0
       \<longrightarrow> (\<exists>u. update_fn finfo_eps cfg updates state (Some ps) (Some l)
                  = Inr (u, new_state cfg updates state ps l)))
   \<and> (0 \<le> beta1 cfg \<and> beta1 cfg < 1 \<and> 0 \<le> beta2 cfg \<and> beta2 cfg < 1
        \<and> learning_rate cfg = Scalar a \<and> 1 + a * weight_decay cfg = 0
       \<longrightarrow> update_fn finfo_eps cfg updates state (Some ps) (Some l) = Inl ZeroDivisionError)"
proof -
  have v: "(\<exists>m. update_fn finfo_eps cfg updates state params loss = Inl (ValueError m))
      = (params = None \<or> loss = None)"
    by (auto simp: update_fn_def split: option.splits sum.splits dest: p_update_Inl)
  have n: "update_fn finfo_eps cfg updates state None loss = Inl (ValueError NO_PARAMS_MSG)"
    and l: "update_fn finfo_eps cfg updates state (Some ps) None = Inl (ValueError NO_LOSS_MSG)"
    by (simp_all add: update_fn_def)
  have z: "e = ZeroDivisionError \<and> 1 + alpha cfg state * weight_decay cfg = 0"
    if "0 \<le> beta1 cfg \<and> beta1 cfg < 1 \<and> 0 \<le> beta2 cfg \<and> beta2 cfg < 1
        \<and> update_fn finfo_eps cfg updates state (Some ps) (Some l) = Inl e"
  proof -
    from that have "p_update finfo_eps cfg updates state ps l = Inl e"
      by (simp add: update_fn_Some split: sum.splits)
    then have "e = ZeroDivisionError
        \<and> (bc1 cfg state = 0 \<or> 1 + alpha cfg state * weight_decay cfg = 0)"
      by (rule p_update_Inl)
    moreover from that have "0 < bc1 cfg state"
      by (simp add: bc1_pos)
    ultimately show ?thesis by simp
  qed
  have r: "\<exists>u. update_fn finfo_eps cfg updates state (Some ps) (Some l)
                   = Inr (u, new_state cfg updates state ps l)"
    if "0 \<le> beta1 cfg \<and> beta1 cfg < 1 \<and> 0 \<le> beta2 cfg \<and> beta2 cfg < 1
        \<and> 1 + alpha cfg state * weight_decay cfg \<noteq> 0"
  proof -
    from that have "0 < bc1 cfg state"
      by (simp add: bc1_pos)
    with that show ?thesis
      by (simp add: update_fn_Some p_update_Inr)
  qed
  have d: "update_fn finfo_eps cfg updates state (Some ps) (Some l) = Inl ZeroDivisionError"
    if "0 \<le> beta1 cfg \<and> beta1 cfg < 1 \<and> 0 \<le> beta2 cfg \<and> beta2 cfg < 1
        \<and> learning_rate cfg = Scalar a \<and> 1 + a * weight_decay cfg = 0"
  proof -
    from that have "1 + alpha cfg state * weight_decay cfg = 0"
      by (simp add: alpha_def)
    then show ?thesis
      by (simp add: update_fn_Some p_update_zero_divisor)
  qed
  from v n l z r d show ?thesis by simp
qed

text \<open>
  Witness for C3: the scenario, which returns with both arguments present and raises the
  two \<open>ValueError\<close>s without them.
\<close>

theorem update_fn_errors_witness:
  "0 \<le> beta1 default_cfg \<and> beta1 default_cfg < 1
   \<and> 0 \<le> beta2 default_cfg \<and> beta2 default_cfg < 1
   \<and> 1 + alpha default_cfg (init_fn one_param) * weight_decay default_cfg \<noteq> 0
   \<and> (\<exists>u. update_fn float32_eps default_cfg half_gradient (init_fn one_param)
             (Some one_param) (Some 2)
           = Inr (u, new_state default_cfg half_gradient (init_fn one_param) one_param 2))
   \<and> update_fn float32_eps default_cfg half_gradient (init_fn one_param) None (Some 2)
       = Inl (ValueError NO_PARAMS_MSG)
   \<and> update_fn float32_eps default_cfg half_gradient (init_fn one_param) (Some one_param) None
       = Inl (ValueError NO_LOSS_MSG)"
proof -
  have h: "0 \<le> beta1 default_cfg \<and> beta1 default_cfg < 1
      \<and> 0 \<le> beta2 default_cfg \<and> beta2 default_cfg < 1
      \<and> 1 + alpha default_cfg (init_fn one_param) * weight_decay default_cfg \<noteq> 0"
    by (simp add: sc_alpha default_cfg_fields)
  note z = update_fn_errors [where finfo_eps = float32_eps and cfg = default_cfg
      and updates = half_gradient and state = "init_fn one_param" and loss = "Some 2"
      and ps = one_param and l = 2]
  from z have n: "update_fn float32_eps default_cfg half_gradient (init_fn one_param) None (Some 2)
       = Inl (ValueError NO_PARAMS_MSG)"
    by (rule conjunct2 [THEN conjunct1])
  from z have l: "update_fn float32_eps default_cfg half_gradient (init_fn one_param)
        (Some one_param) None = Inl (ValueError NO_LOSS_MSG)"
    by (rule conjunct2 [THEN conjunct2, THEN conjunct1])
  from z [THEN conjunct2, THEN conjunct2, THEN conjunct2, THEN conjunct2, THEN conjunct1] h
  have r: "\<exists>u. update_fn float32_eps default_cfg half_gradient (init_fn one_param)
             (Some one_param) (Some 2)
           = Inr (u, new_state default_cfg half_gradient (init_fn one_param) one_param 2)"
    by (rule mp)
  from h r n l show ?thesis
    by (intro conjI) simp_all
qed

subsection \<open>The preconditioner\<close>

text \<open>
  C4, as stated, fails: \<open>eps > 0\<close> and a non-negative second moment do not keep
  \<open>update_fn\<close> from raising. With the learning rate \<open>-2\<close> and the weight decay \<open>1 / 2\<close>
  on the state of \<open>init_fn\<close>, both arguments present, the division by
  \<open>1 + alpha * weight_decay = 0\<close> raises \<open>ZeroDivisionError\<close>.
\<close>

theorem update_raises_with_decay_counterexample:
  "0 < eps negative_rate_half_decay_cfg
   \<and> 0 \<le> exp_avg_sq (init_fn one_param) ()
   \<and> update_fn float32_eps negative_rate_half_decay_cfg half_gradient (init_fn one_param)
        (Some one_param) (Some 2) = Inl ZeroDivisionError"
proof -
  have "1 + alpha negative_rate_half_decay_cfg (init_fn one_param)
          * weight_decay negative_rate_half_decay_cfg = 0"
    by (simp add: alpha_def negative_rate_decay_cfg_fields)
  then show ?thesis
    by (simp add: update_fn_Some p_update_zero_divisor negative_rate_decay_cfg_fields
        init_fn_fields)
qed

text \<open>
  C4, amended. Given \<open>eps > 0\<close>, a state whose second-moment entries are non-negative,
  \<open>betas\<close> in \<open>[0, 1)\<close>, \<open>1 + alpha * weight_decay\<close> other than 0 and a step count below
  the largest 32-bit integer (where \<open>count + 1\<close> is the successor for a counter of 32 bits
  too): \<open>bc1\<close> and \<open>bc2\<close> are positive, every entry of the preconditioner is at least
  \<open>eps\<close> and so not zero, the candidate step is 0 under the guard, the call with both
  arguments present returns, and \<open>update_fn\<close> raises only the two errors of an absent
  \<open>params\<close> or \<open>loss\<close>.
\<close>

theorem precond_ge_eps_update_total:
  assumes "0 < eps cfg" and "\<forall>i. 0 \<le> exp_avg_sq state i"
    and "0 \<le> beta1 cfg" and "beta1 cfg < 1"
    and "0 \<le> beta2 cfg" and "beta2 cfg < 1"
    and "1 + alpha cfg state * weight_decay cfg \<noteq> 0"
    and "count state < 2147483647"
  shows "0 < bc1 cfg state \<and> 0 < bc2 cfg state
    \<and> (\<forall>i. eps cfg \<le> precond cfg updates state i \<and> precond cfg updates state i \<noteq> 0)
    \<and> (exp_avg_norm cfg updates state \<le> finfo_eps
         \<longrightarrow> t1 finfo_eps cfg updates state ps l = 0)
    \<and> (\<exists>u. update_fn finfo_eps cfg updates state (Some ps) (Some l)
              = Inr (u, new_state cfg updates state ps l))
    \<and> (\<forall>e. update_fn finfo_eps cfg updates state params loss = Inl e
           \<longrightarrow> (params = None \<and> e = ValueError NO_PARAMS_MSG)
               \<or> (loss = None \<and> e = ValueError NO_LOSS_MSG))"
proof -
  have b1: "0 < bc1 cfg state"
    using assms(3,4) by (rule bc1_pos)
  have b2: "0 < bc2 cfg state"
    using assms(5,6) by (rule bc2_pos)
  have p: "eps cfg \<le> precond cfg updates state i \<and> precond cfg updates state i \<noteq> 0" for i
  proof -
    have "eps cfg \<le> precond cfg updates state i"
      using assms(2,5,6) by (simp add: precond_ge_eps)
    with assms(1) show ?thesis by simp
  qed
  have g: "exp_avg_norm cfg updates state \<le> finfo_eps
         \<longrightarrow> t1 finfo_eps cfg updates state ps l = 0"
    by (simp add: t1_def)
  have u: "p_update finfo_eps cfg updates state ps' l' = Inr
            (tree_map3
              (\<lambda>ea prec p.
                 (- (alpha cfg state * weight_decay cfg))
                   / (1 + alpha cfg state * weight_decay cfg) * p
                 - min (alpha cfg state / bc1 cfg state)
                     (t1 finfo_eps cfg updates state ps' l') * ea / prec)
              (exp_avg_new cfg updates state) (precond cfg updates state) ps')" for ps' l'
    using b1 assms(7) by (simp add: p_update_Inr)
  have r: "\<exists>u. update_fn finfo_eps cfg updates state (Some ps) (Some l)
              = Inr (u, new_state cfg updates state ps l)"
    by (simp add: update_fn_Some u)
  have e: "(params = None \<and> e = ValueError NO_PARAMS_MSG)
               \<or> (loss = None \<and> e = ValueError NO_LOSS_MSG)"
    if "update_fn finfo_eps cfg updates state params loss = Inl e" for e
    using that by (auto simp: update_fn_def u split: option.splits)
  from b1 b2 p g r e show ?thesis by blast
qed

text \<open>
  Witness for C4: the default configuration and the gradient \<open>1 / 10 ^ 12\<close> on the state
  of \<open>init_fn\<close>, where the guard applies.
\<close>

theorem precond_ge_eps_update_total_witness:
  "0 < eps default_cfg \<and> (\<forall>i. 0 \<le> exp_avg_sq (init_fn one_param) i)
   \<and> 0 \<le> beta1 default_cfg \<and> beta1 default_cfg < 1
   \<and> 0 \<le> beta2 default_cfg \<and> beta2 default_cfg < 1
   \<and> 1 + alpha default_cfg (init_fn one_param) * weight_decay default_cfg \<noteq> 0
   \<and> count (init_fn one_param) < 2147483647
   \<and> exp_avg_norm default_cfg tiny_gradient (init_fn one_param) \<le> float32_eps
   \<and> 0 < bc1 default_cfg (init_fn one_param)
   \<and> 0 < bc2 default_cfg (init_fn one_param)
   \<and> eps default_cfg \<le> precond default_cfg tiny_gradient (init_fn one_param) ()
   \<and> precond default_cfg tiny_gradient (init_fn one_param) () \<noteq> 0
   \<and> t1 float32_eps default_cfg tiny_gradient (init_fn one_param) one_param 2 = 0
   \<and> (\<exists>u. update_fn float32_eps default_cfg tiny_gradient (init_fn one_param)
             (Some one_param) (Some 2)
           = Inr (u, new_state default_cfg tiny_gradient (init_fn one_param) one_param 2))"
proof -
  have h: "0 < eps default_cfg" "\<forall>i. 0 \<le> exp_avg_sq (init_fn one_param) i"
    "0 \<le> beta1 default_cfg" "beta1 default_cfg < 1"
    "0 \<le> beta2 default_cfg" "beta2 default_cfg < 1"
    "1 + alpha default_cfg (init_fn one_param) * weight_decay default_cfg \<noteq> 0"
    "count (init_fn one_param) < 2147483647"
    by (simp_all add: default_cfg_fields init_fn_fields sc_alpha)
  have n: "exp_avg_norm default_cfg tiny_gradient (init_fn one_param) \<le> float32_eps"
    by (simp add: tiny_norm_le default_cfg_fields)
  from precond_ge_eps_update_total [OF h, of tiny_gradient float32_eps one_param 2
      "Some one_param" "Some 2"] h n
  show ?thesis by simp
qed

subsection \<open>The adaptive step size\<close>

text \<open>
  C5. Whenever the adaptive step size is computed, that is in every call that gets past
  the division \<open>alpha / bc1\<close>, it does not exceed the bias-corrected learning rate:
  \<open>tau \<le> alpha / bc1\<close>.
\<close>

theorem tau_le_alpha_over_bc1:
  "tau finfo_eps cfg updates state params loss = Inr t
   \<Longrightarrow> t \<le> alpha cfg state / bc1 cfg state"
  by (auto simp: tau_def float_truediv_def split: if_splits)

text \<open>Witness for C5: the scenario, where \<open>tau = 10 = alpha / bc1\<close>.\<close>

theorem tau_le_alpha_over_bc1_witness:
  "tau float32_eps default_cfg half_gradient (init_fn one_param) one_param 2 = Inr 10
   \<and> (10 :: real) \<le> alpha default_cfg (init_fn one_param) / bc1 default_cfg (init_fn one_param)"
  using tau_le_alpha_over_bc1 [OF sc_tau [OF float32_eps_small]] sc_tau [OF float32_eps_small]
  by simp

subsection \<open>The scenario of the specification\<close>

text \<open>
  C6. One scalar parameter 1, the default configuration, the state of \<open>init_fn\<close>, gradient
  0.5 and loss 2, for any guard threshold below \<open>1 / 1000\<close>: the call returns the state
  with \<open>barf = 0.2\<close>, \<open>gamma = 0.05\<close>, \<open>exp_avg = 0.05\<close>, \<open>exp_avg_sq = 0.00025\<close> and
  \<open>count = 1\<close>, and the update \<open>-(50000000 / 50000001)\<close>, which is the value that steps 3
  to 11 of the specification give from those moving averages.
\<close>

theorem first_step_scenario:
  assumes "finfo_eps < 1 / 1000"
  shows "update_fn finfo_eps default_cfg half_gradient (init_fn one_param)
           (Some one_param) (Some 2)
         = Inr ((\<lambda>i. - (50000000 / 50000001)),
                \<lparr>exp_avg = (\<lambda>i. 5 / 100), exp_avg_sq = (\<lambda>i. 25 / 100000), barf = 2 / 10,
                 gamma = 5 / 100, count = 1\<rparr>)
    \<and> spec_steps_3_11 finfo_eps 1 (9 / 10) (999 / 1000) (1 / 100000000) 0 0 0 (2 / 10) 0
         (\<lambda>i. 5 / 100) (\<lambda>i. 25 / 100000) half_gradient one_param
       = (\<lambda>i. - (50000000 / 50000001))"
proof -
  have u: "p_update finfo_eps default_cfg half_gradient (init_fn one_param) one_param 2
             = Inr (\<lambda>i. - (50000000 / 50000001))"
    using assms by (rule sc_update)
  have b: "bc1 default_cfg (init_fn one_param) \<noteq> 0"
    by (simp add: sc_bc1)
  have w: "1 + alpha default_cfg (init_fn one_param) * weight_decay default_cfg \<noteq> 0"
    by (simp add: sc_alpha default_cfg_fields)
  have "p_update finfo_eps default_cfg half_gradient (init_fn one_param) one_param 2
       = Inr (spec_steps_3_11 finfo_eps 1 (9 / 10) (999 / 1000) (1 / 100000000) 0 0 0 (2 / 10) 0
         (\<lambda>i. 5 / 100) (\<lambda>i. 25 / 100000) half_gradient one_param)"
    by (simp add: p_update_spec [OF b w] sc_alpha default_cfg_fields init_fn_fields sc_barf
        sc_exp_avg sc_exp_avg_sq)
  with u show ?thesis
    by (simp add: update_fn_Some sc_state)
qed

text \<open>Witness for C6: the single-precision machine epsilon as the threshold.\<close>

theorem first_step_scenario_witness:
  "float32_eps < 1 / 1000
   \<and> update_fn float32_eps default_cfg half_gradient (init_fn one_param)
           (Some one_param) (Some 2)
         = Inr ((\<lambda>i. - (50000000 / 50000001)),
                \<lparr>exp_avg = (\<lambda>i. 5 / 100), exp_avg_sq = (\<lambda>i. 25 / 100000), barf = 2 / 10,
                 gamma = 5 / 100, count = 1\<rparr>)"
proof -
  have h: "float32_eps < 1 / 1000" by (simp add: float32_eps_def)
  from first_step_scenario [OF h] h show ?thesis by simp
qed

subsection \<open>The second moment stays non-negative\<close>

text \<open>
  C7. The entries of \<open>exp_avg_sq\<close> are non-negative in the state of \<open>init_fn\<close>; and for
  \<open>beta2\<close> in \<open>[0, 1)\<close>, every state with non-negative \<open>exp_avg_sq\<close> entries and every
  gradient container, the state that \<open>update_fn\<close> returns has non-negative \<open>exp_avg_sq\<close>
  entries.
\<close>

theorem exp_avg_sq_nonneg_invariant:
  "(\<forall>i. 0 \<le> exp_avg_sq (init_fn ps) i)
   \<and> (0 \<le> beta2 cfg \<and> beta2 cfg < 1 \<and> (\<forall>i. 0 \<le> exp_avg_sq state i)
        \<and> update_fn finfo_eps cfg updates state params loss = Inr (u, s)
      \<longrightarrow> (\<forall>i. 0 \<le> exp_avg_sq s i))"
proof (intro conjI impI)
  show "\<forall>i. 0 \<le> exp_avg_sq (init_fn ps) i"
    by (simp add: init_fn_fields)
next
  assume h: "0 \<le> beta2 cfg \<and> beta2 cfg < 1 \<and> (\<forall>i. 0 \<le> exp_avg_sq state i)
        \<and> update_fn finfo_eps cfg updates state params loss = Inr (u, s)"
  then have "exp_avg_sq s = exp_avg_sq_new cfg updates state"
    by (auto simp: new_state_def dest!: update_fn_Inr_state)
  with h show "\<forall>i. 0 \<le> exp_avg_sq s i"
    by (simp add: exp_avg_sq_new_nonneg)
qed

text \<open>Witness for C7: the first step of the scenario.\<close>

theorem exp_avg_sq_nonneg_invariant_witness:
  "0 \<le> beta2 default_cfg \<and> beta2 default_cfg < 1
   \<and> (\<forall>i. 0 \<le> exp_avg_sq (init_fn one_param) i)
   \<and> update_fn float32_eps default_cfg half_gradient (init_fn one_param) (Some one_param) (Some 2)
       = Inr ((\<lambda>i. - (50000000 / 50000001)),
              new_state default_cfg half_gradient (init_fn one_param) one_param 2)
   \<and> (\<forall>i. 0 \<le> exp_avg_sq (new_state default_cfg half_gradient (init_fn one_param) one_param 2) i)"
  using exp_avg_sq_nonneg_invariant [of one_param default_cfg "init_fn one_param" float32_eps
      half_gradient "Some one_param" "Some 2" "\<lambda>i. - (50000000 / 50000001)"
      "new_state default_cfg half_gradient (init_fn one_param) one_param 2"]
    sc_update_fn [OF float32_eps_small]
  by (simp add: default_cfg_fields init_fn_fields)

subsection \<open>Initial state\<close>

text \<open>
  C8. For every parameter container, \<open>init_fn\<close> returns a state (it has no error result)
  whose two moment containers are zero at every position of the parameter container,
  with \<open>barf = 0\<close>, \<open>gamma = 0\<close> and \<open>count = 0\<close>.
\<close>

theorem init_fn_zero:
  "init_fn params =
     \<lparr>exp_avg = (\<lambda>i. 0), exp_avg_sq = (\<lambda>i. 0), barf = 0, gamma = 0, count = 0\<rparr>"
  by (simp add: init_fn_def tree_map_def)

end
